theory Spec2Isabelle
  imports Complex_Main "HOL-Library.Word"
begin

section \<open>JavaScript strings\<close>

text \<open>
  A JavaScript string is a sequence of UTF-16 code units; \<open>length\<close>, \<open>substring\<close>,
  \<open>includes\<close>, \<open>trim\<close> and a regular expression without the \<open>u\<close> flag all work on code
  units. \<open>lit\<close> writes an ASCII literal of the source as code units.
\<close>

type_synonym code_unit = "16 word"
type_synonym jstring = "code_unit list"

definition lit :: "string \<Rightarrow> jstring" where
  "lit s = map (\<lambda>c. of_nat (of_char c)) s"

definition AMP :: code_unit where "AMP = 0x26"
definition LT :: code_unit where "LT = 0x3C"
definition GT :: code_unit where "GT = 0x3E"
definition STAR :: code_unit where "STAR = 0x2A"
definition NEWLINE :: code_unit where "NEWLINE = 0x0A"

text \<open>The mask character U+2022 of \<open>api-keys.js\<close> and the warning sign U+26A0 U+FE0F of
  \<open>chat.js\<close>.\<close>

definition BULLET :: code_unit where "BULLET = 0x2022"
definition WARNING_SIGN :: jstring where "WARNING_SIGN = [0x26A0, 0xFE0F]"

text \<open>\<open>String.prototype.trim\<close>: the WhiteSpace and LineTerminator code points of ECMAScript,
  all of them single code units.\<close>

definition is_js_space :: "code_unit \<Rightarrow> bool" where
  "is_js_space c \<longleftrightarrow>
     c = 0x09 \<or> c = 0x0A \<or> c = 0x0B \<or> c = 0x0C \<or> c = 0x0D \<or> c = 0x20 \<or> c = 0xA0 \<or>
     c = 0x1680 \<or> (0x2000 \<le> c \<and> c \<le> 0x200A) \<or> c = 0x2028 \<or> c = 0x2029 \<or>
     c = 0x202F \<or> c = 0x205F \<or> c = 0x3000 \<or> c = 0xFEFF"

definition trim :: "jstring \<Rightarrow> jstring" where
  "trim s = rev (dropWhile is_js_space (rev (dropWhile is_js_space s)))"

text \<open>A value is truthy in a condition (\<open>!x\<close>, \<open>a || b\<close>, \<open>filter(Boolean)\<close>) unless it is
  \<open>undefined\<close>, \<open>null\<close>, the empty string or the number 0. An absent or null property is
  \<open>None\<close>.\<close>

definition truthy_str :: "jstring option \<Rightarrow> bool" where
  "truthy_str v = (case v of None \<Rightarrow> False | Some s \<Rightarrow> s \<noteq> [])"

definition js_or :: "('a option \<Rightarrow> bool) \<Rightarrow> 'a option \<Rightarrow> 'a option \<Rightarrow> 'a option" where
  "js_or truthy a b = (if truthy a then a else b)"

section \<open>chat.js: parseMarkdown\<close>

text \<open>\<open>s.replace(/c/g, r)\<close> for a single literal character \<open>c\<close>.\<close>

definition replace_char :: "code_unit \<Rightarrow> jstring \<Rightarrow> jstring \<Rightarrow> jstring" where
  "replace_char c r s = concat (map (\<lambda>x. if x = c then r else [x]) s)"

text \<open>
  One match attempt of \<open>/d([^\*]+?)d/\<close> at the start of \<open>s\<close>, where the delimiter \<open>d\<close> is
  \<open>**\<close> (bold) or \<open>*\<close> (italic). The group holds no star, so the lazy quantifier can
  only stop where the run of non-star code units ends: the match exists iff \<open>s\<close> starts with
  \<open>d\<close>, a non-empty run without stars follows, and \<open>d\<close> follows the run. The result is the
  group and the text after the match.
\<close>

definition match_emph :: "jstring \<Rightarrow> jstring \<Rightarrow> (jstring \<times> jstring) option" where
  "match_emph d s =
     (if take (length d) s = d then
        (let t = drop (length d) s;
             g = takeWhile (\<lambda>c. c \<noteq> STAR) t;
             r = dropWhile (\<lambda>c. c \<noteq> STAR) t
         in if g \<noteq> [] \<and> take (length d) r = d then Some (g, drop (length d) r) else None)
      else None)"

lemma match_emph_shorter:
  "match_emph d s = Some (g, rest) \<Longrightarrow> length rest < length s"
proof -
  assume m: "match_emph d s = Some (g, rest)"
  let ?t = "drop (length d) s"
  from m have g: "takeWhile (\<lambda>c. c \<noteq> STAR) ?t \<noteq> []"
    and r: "rest = drop (length d) (dropWhile (\<lambda>c. c \<noteq> STAR) ?t)"
    by (auto simp: match_emph_def Let_def split: if_splits)
  have "length (takeWhile (\<lambda>c. c \<noteq> STAR) ?t) + length (dropWhile (\<lambda>c. c \<noteq> STAR) ?t)
          = length ?t"
    by (metis length_append takeWhile_dropWhile_id)
  moreover from g have "0 < length (takeWhile (\<lambda>c. c \<noteq> STAR) ?t)" by simp
  ultimately have "length (dropWhile (\<lambda>c. c \<noteq> STAR) ?t) < length ?t" by linarith
  moreover have "length ?t \<le> length s" by simp
  ultimately have "length (dropWhile (\<lambda>c. c \<noteq> STAR) ?t) < length s" by linarith
  with r show ?thesis by simp
qed

text \<open>
  \<open>s.replace(/d([^\*]+?)d/g, open + '$1' + close)\<close>: the global replace tries a match at each
  index from the left; after a match it goes on behind the match, otherwise the code unit
  is copied and the next index is tried.
\<close>

function replace_emph :: "jstring \<Rightarrow> jstring \<Rightarrow> jstring \<Rightarrow> jstring \<Rightarrow> jstring" where
  "replace_emph d opn cls [] = []"
| "replace_emph d opn cls (c # cs) =
     (case match_emph d (c # cs) of
        Some (g, rest) \<Rightarrow> opn @ g @ cls @ replace_emph d opn cls rest
      | None \<Rightarrow> c # replace_emph d opn cls cs)"
  by pat_completeness auto
termination
  by (relation "measure (\<lambda>(d, opn, cls, s). length s)")
     (auto dest: match_emph_shorter)

text \<open>The first statement of \<open>parseMarkdown\<close>, the constant \<open>escaped\<close>.\<close>

definition escaped :: "jstring \<Rightarrow> jstring" where
  "escaped text =
     replace_char GT (lit ''&gt;'')
       (replace_char LT (lit ''&lt;'')
         (replace_char AMP (lit ''&amp;'') text))"

definition parseMarkdown :: "jstring \<Rightarrow> jstring" where
  "parseMarkdown text =
     (let result = escaped text;
          result = replace_emph [STAR, STAR] (lit ''<strong>'') (lit ''</strong>'') result;
          result = replace_emph [STAR] (lit ''<em>'') (lit ''</em>'') result
      in replace_char NEWLINE (lit ''<br>'') result)"

section \<open>Projects\<close>

text \<open>
  A project is a JSON object of the backend. The fields the client reads under two
  historical names are both kept. A coordinate is a number or absent, a date is a string or
  absent. Numbers are modelled as rationals: the claims below do not depend on rounding.
\<close>

record project =
  description :: "jstring option"
  contractor :: "jstring option"
  lat :: "rat option"
  latitude :: "rat option"
  lon :: "rat option"
  longitude :: "rat option"
  completion_date_actual :: "jstring option"
  CompletionDateActual :: "jstring option"

definition truthy_num :: "rat option \<Rightarrow> bool" where
  "truthy_num v = (case v of None \<Rightarrow> False | Some x \<Rightarrow> x \<noteq> 0)"

text \<open>\<open>project.lat || project.latitude\<close> and \<open>project.lon || project.longitude\<close>.\<close>

definition lat_of :: "project \<Rightarrow> rat option" where
  "lat_of p = js_or truthy_num (lat p) (latitude p)"

definition lon_of :: "project \<Rightarrow> rat option" where
  "lon_of p = js_or truthy_num (lon p) (longitude p)"

text \<open>\<open>values.filter(Boolean)\<close> on coordinates.\<close>

definition filter_Boolean :: "rat option list \<Rightarrow> rat list" where
  "filter_Boolean vs = concat (map (\<lambda>v. case v of None \<Rightarrow> [] | Some x \<Rightarrow> if x \<noteq> 0 then [x] else []) vs)"

section \<open>project.js: ProjectRenderer\<close>

text \<open>
  The clock and the date parser of the JavaScript engine are parameters: \<open>Date_parse s\<close> is
  the time value in milliseconds of \<open>new Date(s)\<close>, \<open>None\<close> for an invalid date (NaN), and
  \<open>Date_now\<close> is the time value of \<open>new Date()\<close>.
\<close>

record runtime =
  Date_parse :: "jstring \<Rightarrow> int option"
  Date_now :: int

text \<open>
  \<open>createProjectCard\<close> up to the status badge. The card is kept as the project with the two
  locals \<open>status\<close> and \<open>statusText\<close>; the rest of the template formats the project's fields.
  \<open>compDate < now\<close> is false when \<open>compDate\<close> is an invalid date.
\<close>

record card =
  card_project :: project
  status :: jstring
  statusText :: jstring

definition completionDate :: "project \<Rightarrow> jstring option" where
  "completionDate p = js_or truthy_str (completion_date_actual p) (CompletionDateActual p)"

text \<open>The guard \<open>if (completionDate)\<close> and, inside it, the test \<open>compDate < now\<close>.\<close>

definition completed_before_now :: "runtime \<Rightarrow> jstring option \<Rightarrow> bool" where
  "completed_before_now rt cd =
     (if truthy_str cd then
        (case cd of
           Some d \<Rightarrow> (case Date_parse rt d of Some compDate \<Rightarrow> compDate < Date_now rt | None \<Rightarrow> False)
         | None \<Rightarrow> False)
      else False)"

definition createProjectCard :: "runtime \<Rightarrow> project \<Rightarrow> card" where
  "createProjectCard rt p =
     (if completed_before_now rt (completionDate p)
      then \<lparr>card_project = p, status = lit ''completed'', statusText = lit ''Completed''\<rparr>
      else \<lparr>card_project = p, status = lit ''ongoing'', statusText = lit ''Ongoing''\<rparr>)"

text \<open>The content of the \<open>projectCard\<close> container.\<close>

datatype panel = EmptyState | Skeleton | Card card

text \<open>\<open>render(project)\<close>; \<open>None\<close> is a falsy argument (\<open>undefined\<close>).\<close>

definition render :: "runtime \<Rightarrow> project option \<Rightarrow> panel" where
  "render rt project =
     (case project of None \<Rightarrow> EmptyState | Some p \<Rightarrow> Card (createProjectCard rt p))"

section \<open>map.js: MapController\<close>

text \<open>
  A marker is its position and its project. \<open>viewport\<close> is the bounds last given to Leaflet's
  \<open>map.fitBounds\<close>, as \<open>((lat, lon), (lat, lon))\<close>; \<open>None\<close> is the initial view. The marker
  cluster group always holds the markers of \<open>markers\<close>. \<open>projectCount\<close> is the number
  \<open>updateStats\<close> writes; the budget text it writes is formatting and is left out.
\<close>

record marker =
  marker_lat :: rat
  marker_lon :: rat
  marker_project :: project

record map_controller =
  markers :: "marker list"
  viewport :: "((rat \<times> rat) \<times> (rat \<times> rat)) option"
  projectCount :: "nat option"

definition clearMarkers :: "map_controller \<Rightarrow> map_controller" where
  "clearMarkers m = m\<lparr>markers := []\<rparr>"

definition addProjectMarker :: "project \<Rightarrow> map_controller \<Rightarrow> map_controller" where
  "addProjectMarker p m =
     (case (lat_of p, lon_of p) of
        (Some la, Some lo) \<Rightarrow>
          (if la = 0 \<or> lo = 0 then m
           else m\<lparr>markers := markers m @ [\<lparr>marker_lat = la, marker_lon = lo, marker_project = p\<rparr>]\<rparr>)
      | _ \<Rightarrow> m)"

definition updateStats :: "project list \<Rightarrow> map_controller \<Rightarrow> map_controller" where
  "updateStats projects m = m\<lparr>projectCount := Some (length projects)\<rparr>"

definition updateProjects :: "project list \<Rightarrow> map_controller \<Rightarrow> map_controller" where
  "updateProjects projects m =
     (let m = clearMarkers m in
      if projects = [] then m
      else updateStats projects (fold addProjectMarker projects m))"

text \<open>\<open>fitBounds(bbox)\<close>: a bbox is an array of \<open>[lon, lat]\<close> points, \<open>None\<close> a falsy argument.\<close>

definition fitBounds :: "(rat \<times> rat) list option \<Rightarrow> map_controller \<Rightarrow> map_controller" where
  "fitBounds bbox m =
     (case bbox of
        Some [(lon0, lat0), (lon1, lat1)] \<Rightarrow> m\<lparr>viewport := Some ((lat0, lon0), (lat1, lon1))\<rparr>
      | _ \<Rightarrow> m)"

section \<open>news.js: NewsManager\<close>

record article =
  title :: "jstring option"
  url :: "jstring option"

text \<open>The content of the \<open>newsItems\<close> container.\<close>

datatype news_panel = NewsEmpty | NewsLoading | NewsError | NewsCards "article list"

definition news_render :: "article list \<Rightarrow> news_panel" where
  "news_render articles = (if articles = [] then NewsEmpty else NewsCards articles)"

section \<open>Server events\<close>

text \<open>
  A decoded server frame, by its \<open>type\<close>; an optional property is \<open>None\<close> when the frame
  does not carry it. \<open>Other t\<close> is a frame whose \<open>type\<close> is none of the six the client
  switches on (the backend's \<open>tool\<close> frames are of this kind). The properties have the types
  of the protocol: JSON that is no object, or a \<open>message\<close> frame whose \<open>content\<close> is no
  string, is not an event of this type.
\<close>

datatype event =
    Status jstring
  | Message jstring bool
  | Projects "project list option"
  | MapBounds "(rat \<times> rat) list option"
  | News "article list option"
  | Error jstring
  | Other jstring

section \<open>app.js: FloodGuardApp\<close>

text \<open>
  \<open>newsRequests\<close> lists the projects for which \<open>news.fetchForProject\<close> has sent a request to
  \<open>/api/news\<close>, oldest first.
\<close>

record app =
  currentProjects :: "project list"
  map_ctl :: map_controller
  projectCard :: panel
  newsItems :: news_panel
  newsRequests :: "project list"

definition default_bounds :: "(rat \<times> rat) list" where
  "default_bounds = [(121, 12), (122, 13)]"

text \<open>\<open>Math.min(...xs)\<close> and \<open>Math.max(...xs)\<close> of a non-empty array \<open>x # xs\<close>.\<close>

definition Math_min :: "rat \<Rightarrow> rat list \<Rightarrow> rat" where
  "Math_min x xs = fold min xs x"

definition Math_max :: "rat \<Rightarrow> rat list \<Rightarrow> rat" where
  "Math_max x xs = fold max xs x"

definition calculateBounds :: "project list \<Rightarrow> (rat \<times> rat) list" where
  "calculateBounds projects =
     (if projects = [] then default_bounds
      else
        (let lats = filter_Boolean (map lat_of projects);
             lons = filter_Boolean (map lon_of projects);
             padding = 1 / 10
         in case (lats, lons) of
              (la # las, lo # los) \<Rightarrow>
                [(Math_min lo los - padding, Math_min la las - padding),
                 (Math_max lo los + padding, Math_max la las + padding)]
            | _ \<Rightarrow> default_bounds))"

text \<open>\<open>projects[0]\<close>: \<open>undefined\<close> on an empty array.\<close>

definition first_project :: "project list \<Rightarrow> project option" where
  "first_project ps = (case ps of [] \<Rightarrow> None | p # _ \<Rightarrow> Some p)"

fun handleChatMessage :: "runtime \<Rightarrow> event \<Rightarrow> app \<Rightarrow> app" where
  "handleChatMessage rt (Projects data) a =
     (let projects = (case data of None \<Rightarrow> [] | Some ps \<Rightarrow> ps);
          a = a\<lparr>currentProjects := projects\<rparr>;
          a = a\<lparr>map_ctl := clearMarkers (map_ctl a)\<rparr>;
          a = a\<lparr>map_ctl := updateProjects projects (map_ctl a)\<rparr>
      in if length projects > 0 then
           (let bounds = calculateBounds projects;
                a = a\<lparr>map_ctl := fitBounds (Some bounds) (map_ctl a)\<rparr>
            in a\<lparr>projectCard := render rt (first_project projects)\<rparr>)
         else a)"
| "handleChatMessage rt (MapBounds bbox) a =
     (case bbox of
        None \<Rightarrow> a
      | Some b \<Rightarrow> a\<lparr>map_ctl := fitBounds (Some b) (map_ctl a)\<rparr>)"
| "handleChatMessage rt (News data) a =
     (case data of
        None \<Rightarrow> a
      | Some articles \<Rightarrow> a\<lparr>newsItems := news_render articles\<rparr>)"
| "handleChatMessage rt _ a = a"

text \<open>
  \<open>handleProjectClick\<close>, the marker click: the card is rendered, the news panel shows its
  loading skeleton and a news request for the project goes out. The mobile details panel it
  also opens is styling.
\<close>

definition handleProjectClick :: "runtime \<Rightarrow> project \<Rightarrow> app \<Rightarrow> app" where
  "handleProjectClick rt p a =
     a\<lparr>projectCard := render rt (Some p),
       newsItems := NewsLoading,
       newsRequests := newsRequests a @ [p]\<rparr>"

section \<open>chat.js: ChatManager\<close>

text \<open>
  The children of the \<open>chatMessages\<close> container: the welcome message of the page, a message
  (\<open>div.message.role\<close> holding one bubble with its \<open>innerHTML\<close>) and the typing indicator with
  its status text.
\<close>

datatype role = User | Assistant

datatype node = Welcome | Bubble role jstring | Typing jstring

text \<open>The frame \<open>sendMessage\<close> gives to \<open>ws.send\<close>.\<close>

record frame =
  message :: jstring
  session_id :: jstring
  anthropic_key :: jstring
  openai_key :: jstring

text \<open>
  \<open>ws\<close> is the number of the current WebSocket object (\<open>None\<close> is \<open>null\<close>) and
  \<open>socketsCreated\<close> counts the \<open>new WebSocket\<close> calls that returned. \<open>sent\<close> lists the frames
  \<open>ws.send\<close> accepted, oldest first. \<open>timers\<close> lists the delays in milliseconds of the
  pending \<open>setTimeout(() => this.connect(), delay)\<close> calls.
\<close>

record chat_manager =
  sessionId :: jstring
  isConnected :: bool
  ws :: "nat option"
  socketsCreated :: nat
  sendButton_disabled :: bool
  inputElement_value :: jstring
  messagesContainer :: "node list"
  sent :: "frame list"
  timers :: "nat list"




text \<open>\<open>sessionStorage\<close>; \<open>getItem\<close> of a missing key is \<open>null\<close>.\<close>

type_synonym storage = "jstring \<rightharpoonup> jstring"

definition ANTHROPIC_KEY :: jstring where
  "ANTHROPIC_KEY = lit ''floodguard_anthropic_key''"

definition OPENAI_KEY :: jstring where
  "OPENAI_KEY = lit ''floodguard_openai_key''"

definition remove_welcome :: "node list \<Rightarrow> node list" where
  "remove_welcome ns = remove1 Welcome ns"

definition addMessage :: "role \<Rightarrow> jstring \<Rightarrow> chat_manager \<Rightarrow> chat_manager" where
  "addMessage r content c =
     c\<lparr>messagesContainer :=
         remove_welcome (messagesContainer c) @ [Bubble r (parseMarkdown content)]\<rparr>"

definition showError :: "jstring \<Rightarrow> chat_manager \<Rightarrow> chat_manager" where
  "showError msg c = addMessage Assistant (WARNING_SIGN @ lit '' '' @ msg) c"

definition addTypingIndicator :: "chat_manager \<Rightarrow> chat_manager" where
  "addTypingIndicator c =
     c\<lparr>messagesContainer := messagesContainer c @ [Typing (lit ''Thinking...'')]\<rparr>"

text \<open>\<open>document.getElementById('typingIndicator')\<close> is the first indicator of the page.\<close>

fun update_first_typing :: "jstring \<Rightarrow> node list \<Rightarrow> node list" where
  "update_first_typing text [] = []"
| "update_first_typing text (Typing old # ns) = Typing text # ns"
| "update_first_typing text (n # ns) = n # update_first_typing text ns"

fun remove_first_typing :: "node list \<Rightarrow> node list" where
  "remove_first_typing [] = []"
| "remove_first_typing (Typing old # ns) = ns"
| "remove_first_typing (n # ns) = n # remove_first_typing ns"

definition updateTypingIndicator :: "jstring \<Rightarrow> chat_manager \<Rightarrow> chat_manager" where
  "updateTypingIndicator text c =
     c\<lparr>messagesContainer := update_first_typing text (messagesContainer c)\<rparr>"

definition removeTypingIndicator :: "chat_manager \<Rightarrow> chat_manager" where
  "removeTypingIndicator c =
     c\<lparr>messagesContainer := remove_first_typing (messagesContainer c)\<rparr>"

text \<open>
  \<open>handleMessage(data)\<close>. The manager and the state \<open>'a\<close> behind its \<open>onMessage\<close> callback
  change together; \<open>onMessage = None\<close> is a manager configured without callback.
\<close>

fun handleMessage ::
  "(event \<Rightarrow> 'a \<Rightarrow> 'a) option \<Rightarrow> event \<Rightarrow> chat_manager \<times> 'a \<Rightarrow> chat_manager \<times> 'a" where
  "handleMessage onMessage (Status msg) (c, a) = (updateTypingIndicator msg c, a)"
| "handleMessage onMessage (Message content done) (c, a) =
     (let c = removeTypingIndicator c;
          c = addMessage Assistant content c
      in (if done then c\<lparr>sendButton_disabled := False\<rparr> else c, a))"
| "handleMessage onMessage (Projects d) (c, a) =
     (case onMessage of None \<Rightarrow> (c, a) | Some f \<Rightarrow> (c, f (Projects d) a))"
| "handleMessage onMessage (MapBounds b) (c, a) =
     (case onMessage of None \<Rightarrow> (c, a) | Some f \<Rightarrow> (c, f (MapBounds b) a))"
| "handleMessage onMessage (News d) (c, a) =
     (case onMessage of None \<Rightarrow> (c, a) | Some f \<Rightarrow> (c, f (News d) a))"
| "handleMessage onMessage (Error content) (c, a) =
     (let c = removeTypingIndicator c;
          c = showError content c
      in (c\<lparr>sendButton_disabled := False\<rparr>, a))"
| "handleMessage onMessage (Other t) (c, a) = (c, a)"






text \<open>
  \<open>sendMessage()\<close>. \<open>accepted\<close> tells whether \<open>this.ws.send\<close> returned; when it throws, the
  \<open>catch\<close> block runs.
\<close>

definition KEYS_PROMPT :: jstring where
  "KEYS_PROMPT = WARNING_SIGN @
     lit '' Please configure your API keys in Settings (gear icon) to use the chat feature.''"

definition sendMessage :: "storage \<Rightarrow> bool \<Rightarrow> chat_manager \<Rightarrow> chat_manager" where
  "sendMessage sessionStorage accepted c =
     (let msg = trim (inputElement_value c) in
      if msg = [] \<or> \<not> isConnected c then c
      else
        (let anthropicKey = sessionStorage ANTHROPIC_KEY;
             openaiKey = sessionStorage OPENAI_KEY
         in case (anthropicKey, openaiKey) of
              (Some ak, Some ok) \<Rightarrow>
                (if ak = [] \<or> ok = [] then addMessage Assistant KEYS_PROMPT c
                 else
                   (let c = addMessage User msg c;
                        c = c\<lparr>inputElement_value := []\<rparr>;
                        c = c\<lparr>sendButton_disabled := True\<rparr>
                    in if accepted then
                         addTypingIndicator
                           (c\<lparr>sent := sent c @
                               [\<lparr>message = msg, session_id = sessionId c,
                                 anthropic_key = ak, openai_key = ok\<rparr>]\<rparr>)
                       else
                         (showError (lit ''Failed to send message.'') c)
                           \<lparr>sendButton_disabled := False\<rparr>))
            | _ \<Rightarrow> addMessage Assistant KEYS_PROMPT c))"






section \<open>api-keys.js: APIKeyManager\<close>

text \<open>
  The settings modal: the two input fields, whether the modal is shown, the text and class
  of the status line, and the delays of the pending page reloads. The manager works on the
  modal together with \<open>sessionStorage\<close>.
\<close>

record settings =
  anthropicInput :: jstring
  openaiInput :: jstring
  modal_active :: bool
  apiStatus :: "jstring \<times> jstring"
  reloads :: "nat list"

definition maskKey :: "jstring \<Rightarrow> jstring" where
  "maskKey key =
     (if key = [] \<or> length key < 8 then key
      else take 7 key @ replicate 20 BULLET @ drop (length key - 4) key)"

definition showStatus :: "jstring \<Rightarrow> jstring \<Rightarrow> settings \<Rightarrow> settings" where
  "showStatus msg type u = u\<lparr>apiStatus := (msg, lit ''api-status '' @ type)\<rparr>"

definition clearStatus :: "settings \<Rightarrow> settings" where
  "clearStatus u = u\<lparr>apiStatus := ([], lit ''api-status'')\<rparr>"

definition openModal :: "settings \<times> storage \<Rightarrow> settings \<times> storage" where
  "openModal s =
     (case s of (u, st) \<Rightarrow>
        (let u = (case st ANTHROPIC_KEY of
                    Some k \<Rightarrow> if k \<noteq> [] then u\<lparr>anthropicInput := maskKey k\<rparr> else u
                  | None \<Rightarrow> u);
             u = (case st OPENAI_KEY of
                    Some k \<Rightarrow> if k \<noteq> [] then u\<lparr>openaiInput := maskKey k\<rparr> else u
                  | None \<Rightarrow> u)
         in (u\<lparr>modal_active := True\<rparr>, st)))"

definition closeModal :: "settings \<Rightarrow> settings" where
  "closeModal u = clearStatus (u\<lparr>modal_active := False\<rparr>)"

text \<open>\<open>key.includes(BULLET)\<close> is membership, the mask being one code unit.\<close>

definition saveKeys :: "settings \<times> storage \<Rightarrow> settings \<times> storage" where
  "saveKeys s =
     (case s of (u, st) \<Rightarrow>
        (let anthropicKey = trim (anthropicInput u);
             openaiKey = trim (openaiInput u)
         in if anthropicKey = [] \<and> openaiKey = []
            then (showStatus (lit ''Please enter at least one API key'') (lit ''error'') u, st)
            else
              (let st = (if anthropicKey \<noteq> [] \<and> BULLET \<notin> set anthropicKey
                         then st(ANTHROPIC_KEY \<mapsto> anthropicKey) else st);
                   st = (if openaiKey \<noteq> [] \<and> BULLET \<notin> set openaiKey
                         then st(OPENAI_KEY \<mapsto> openaiKey) else st);
                   u = showStatus (0x2713 # lit '' API keys saved successfully! (Session only)'')
                         (lit ''success'') u
               in (u\<lparr>reloads := reloads u @ [1500]\<rparr>, st))))"

text \<open>\<open>clearKeys()\<close>; \<open>confirmed\<close> is the answer to the \<open>confirm\<close> dialog.\<close>

definition clearKeys :: "bool \<Rightarrow> settings \<times> storage \<Rightarrow> settings \<times> storage" where
  "clearKeys confirmed s =
     (case s of (u, st) \<Rightarrow>
        if confirmed then
          (let st = st(ANTHROPIC_KEY := None);
               st = st(OPENAI_KEY := None);
               u = u\<lparr>anthropicInput := [], openaiInput := []\<rparr>;
               u = showStatus (lit ''API keys cleared'') (lit ''warning'') u
           in (u\<lparr>reloads := reloads u @ [1000]\<rparr>, st))
        else (u, st))"

section \<open>Auxiliary notions and example inputs\<close>

text \<open>Example: a runtime that parses one date (31 January 2024, in milliseconds) and whose
  clock reads \<open>now\<close>, and a project completed on that date.\<close>

definition ex_rt :: "int \<Rightarrow> runtime" where
  "ex_rt now = \<lparr>Date_parse = (\<lambda>s. if s = lit ''2024-01-31'' then Some 1706659200000 else None), Date_now = now\<rparr>"

definition ex_project :: project where
  "ex_project = \<lparr>description = Some (lit ''Flood wall''), contractor = None,
     lat = Some 15, latitude = None, lon = Some 120, longitude = None,
     completion_date_actual = Some (lit ''2024-01-31''), CompletionDateActual = None\<rparr>"

text \<open>The bounds are a function of the two filtered coordinate lists; the test for an empty
  project array is subsumed by the test for an empty coordinate list.\<close>

definition bounds_of :: "rat list \<Rightarrow> rat list \<Rightarrow> (rat \<times> rat) list" where
  "bounds_of lats lons =
     (case (lats, lons) of
        (la # las, lo # los) \<Rightarrow>
          [(Math_min lo los - 1 / 10, Math_min la las - 1 / 10),
           (Math_max lo los + 1 / 10, Math_max la las + 1 / 10)]
      | _ \<Rightarrow> default_bounds)"

text \<open>Example: a project whose latitude is 0 under both names, a project with latitude 0
  and no longitude, and a map without markers.\<close>

definition ex_project_zero :: project where
  "ex_project_zero = \<lparr>description = Some (lit ''Null island''), contractor = None,
     lat = Some 0, latitude = Some 0, lon = Some 121, longitude = None,
     completion_date_actual = None, CompletionDateActual = None\<rparr>"

definition ex_project_nowhere :: project where
  "ex_project_nowhere = \<lparr>description = Some (lit ''Unlocated''), contractor = None,
     lat = None, latitude = Some 0, lon = Some 0, longitude = None,
     completion_date_actual = None, CompletionDateActual = None\<rparr>"

definition ex_map :: map_controller where
  "ex_map = \<lparr>markers = [], viewport = None, projectCount = None\<rparr>"

text \<open>The form in which \<open>saveKeys\<close> writes a key: not empty, trimmed, without the mask.\<close>

definition stored_form :: "jstring \<Rightarrow> bool" where
  "stored_form k \<longleftrightarrow> k \<noteq> [] \<and> trim k = k \<and> BULLET \<notin> set k"

text \<open>Example: a key of 19 code units stored under both names, and the modal as it is after
  it was opened on them.\<close>

definition ex_key :: jstring where
  "ex_key = lit ''sk-ant-api03-abcdef''"

definition ex_storage :: storage where
  "ex_storage = [ANTHROPIC_KEY \<mapsto> ex_key, OPENAI_KEY \<mapsto> ex_key]"

definition ex_settings :: settings where
  "ex_settings = \<lparr>anthropicInput = maskKey ex_key, openaiInput = maskKey ex_key,
     modal_active = True, apiStatus = ([], lit ''api-status''), reloads = []\<rparr>"

text \<open>The \<open>innerHTML\<close> of the assistant bubbles of the chat log, top to bottom, and the log
  after a run of \<open>message\<close> frames given as \<open>(content, done)\<close> in receipt order.\<close>

definition assistant_bubbles :: "node list \<Rightarrow> jstring list" where
  "assistant_bubbles ns =
     concat (map (\<lambda>n. case n of Bubble Assistant h \<Rightarrow> [h] | _ \<Rightarrow> []) ns)"

definition receive_fragments ::
  "(event \<Rightarrow> 'a \<Rightarrow> 'a) option \<Rightarrow> (jstring \<times> bool) list \<Rightarrow> chat_manager \<times> 'a \<Rightarrow> chat_manager \<times> 'a" where
  "receive_fragments onMessage frs s =
     fold (\<lambda>fr. handleMessage onMessage (Message (fst fr) (snd fr))) frs s"

text \<open>Example: a chat log in which a turn is pending.\<close>

definition ex_chat :: chat_manager where
  "ex_chat = \<lparr>sessionId = lit ''k3j9x0q2m1a'', isConnected = True, ws = Some 0,
     socketsCreated = 1, sendButton_disabled = True, inputElement_value = [],
     messagesContainer = [Bubble User (lit ''hi''), Typing (lit ''Thinking...'')],
     sent = [], timers = []\<rparr>"

text \<open>Example: the application before the first turn.\<close>

definition ex_app :: app where
  "ex_app = \<lparr>currentProjects = [], map_ctl = ex_map, projectCard = EmptyState,
     newsItems = NewsEmpty, newsRequests = []\<rparr>"

text \<open>The marker \<open>addProjectMarker\<close> adds for a project, if any.\<close>

definition marker_of :: "project \<Rightarrow> marker list" where
  "marker_of p =
     (case (lat_of p, lon_of p) of
        (Some la, Some lo) \<Rightarrow>
          (if la = 0 \<or> lo = 0 then []
           else [\<lparr>marker_lat = la, marker_lon = lo, marker_project = p\<rparr>])
      | _ \<Rightarrow> [])"

text \<open>The part of the manager that is the session and its connection.\<close>

definition connection :: "chat_manager \<Rightarrow> jstring \<times> bool \<times> nat option \<times> nat \<times> nat list" where
  "connection c = (sessionId c, isConnected c, ws c, socketsCreated c, timers c)"

text \<open>Example: a connected manager with a question typed in, the same manager while the
  connection is down, and a storage that holds only the first of the two keys.\<close>

definition ex_chat_ready :: chat_manager where
  "ex_chat_ready = \<lparr>sessionId = lit ''k3j9x0q2m1a'', isConnected = True, ws = Some 0,
     socketsCreated = 1, sendButton_disabled = False,
     inputElement_value = lit '' Show projects in Pangasinan '',
     messagesContainer = [Welcome], sent = [], timers = []\<rparr>"

definition ex_chat_offline :: chat_manager where
  "ex_chat_offline = ex_chat_ready\<lparr>isConnected := False, sendButton_disabled := True\<rparr>"

definition ex_storage_one_key :: storage where
  "ex_storage_one_key = [ANTHROPIC_KEY \<mapsto> ex_key]"



section \<open>Verification: the markdown formatter\<close>












section \<open>Verification: the project card\<close>

lemma lit_completed_neq: "lit ''completed'' \<noteq> lit ''ongoing''"
  by (simp add: lit_def)

lemma completed_before_now_iff:
  "completed_before_now rt cd \<longleftrightarrow>
     (\<exists>d t. cd = Some d \<and> d \<noteq> [] \<and> Date_parse rt d = Some t \<and> t < Date_now rt)"
  by (auto simp: completed_before_now_def truthy_str_def split: option.splits)

text \<open>
  C8. The status of a project card is computed when the card is rendered, from the
  project's completion date (\<open>completion_date_actual || CompletionDateActual\<close>) and the clock
  of that moment; the project has no status field. It is \<open>completed\<close> iff the completion
  date is present and its time value is before the current time, and \<open>ongoing\<close> otherwise;
  with the date removed it is \<open>ongoing\<close>.
\<close>

theorem status_derived_at_render_time:
  "(status (createProjectCard rt p) = lit ''completed'' \<longleftrightarrow>
      (\<exists>d t. completionDate p = Some d \<and> d \<noteq> [] \<and> Date_parse rt d = Some t \<and> t < Date_now rt)) \<and>
   (status (createProjectCard rt p) \<noteq> lit ''completed'' \<longrightarrow>
      status (createProjectCard rt p) = lit ''ongoing'') \<and>
   status (createProjectCard rt (p\<lparr>completion_date_actual := None, CompletionDateActual := None\<rparr>))
     = lit ''ongoing''"
proof -
  have "completionDate (p\<lparr>completion_date_actual := None, CompletionDateActual := None\<rparr>) = None"
    by (simp add: completionDate_def js_or_def truthy_str_def)
  then have "\<not> completed_before_now rt
      (completionDate (p\<lparr>completion_date_actual := None, CompletionDateActual := None\<rparr>))"
    by (simp add: completed_before_now_iff)
  then show ?thesis
    using lit_completed_neq by (simp add: createProjectCard_def completed_before_now_iff)
qed

theorem status_derived_at_render_time_witness:
  "status (createProjectCard (ex_rt 1762128000000) ex_project) = lit ''completed'' \<and>
   status (createProjectCard (ex_rt 1700000000000) ex_project) = lit ''ongoing'' \<and>
   status (createProjectCard (ex_rt 1762128000000)
     (ex_project\<lparr>completion_date_actual := None, CompletionDateActual := None\<rparr>)) = lit ''ongoing''"
proof -
  have c: "completionDate ex_project = Some (lit ''2024-01-31'')"
    by (simp add: completionDate_def js_or_def truthy_str_def ex_project_def lit_def)
  have n: "lit ''2024-01-31'' \<noteq> []" by (simp add: lit_def)
  have a: "\<exists>d t. completionDate ex_project = Some d \<and> d \<noteq> [] \<and>
      Date_parse (ex_rt 1762128000000) d = Some t \<and> t < Date_now (ex_rt 1762128000000)"
    using c n by (simp add: ex_rt_def)
  have b: "\<not> (\<exists>d t. completionDate ex_project = Some d \<and> d \<noteq> [] \<and>
      Date_parse (ex_rt 1700000000000) d = Some t \<and> t < Date_now (ex_rt 1700000000000))"
    using c by (simp add: ex_rt_def)
  from a b status_derived_at_render_time[of "ex_rt 1762128000000" ex_project]
    status_derived_at_render_time[of "ex_rt 1700000000000" ex_project]
  show ?thesis by blast
qed

section \<open>Verification: markers and bounds\<close>

lemma truthy_num_iff: "truthy_num v \<longleftrightarrow> v \<noteq> None \<and> v \<noteq> Some 0"
  by (simp add: truthy_num_def split: option.splits)

lemma addProjectMarker_falsy:
  "lat_of p \<in> {None, Some 0} \<or> lon_of p \<in> {None, Some 0} \<Longrightarrow> addProjectMarker p m = m"
  by (auto simp: addProjectMarker_def split: option.splits)

lemma filter_Boolean_append:
  "filter_Boolean (xs @ ys) = filter_Boolean xs @ filter_Boolean ys"
  by (simp add: filter_Boolean_def)

lemma filter_Boolean_falsy:
  "v \<in> {None, Some 0} \<Longrightarrow> filter_Boolean (xs @ v # ys) = filter_Boolean (xs @ ys)"
  by (auto simp: filter_Boolean_def)

lemma calculateBounds_lists:
  "calculateBounds ps =
     bounds_of (filter_Boolean (map lat_of ps)) (filter_Boolean (map lon_of ps))"
  by (cases ps) (simp_all add: calculateBounds_def bounds_of_def filter_Boolean_def Let_def)

text \<open>
  C9. The latitude of a project is \<open>project.lat || project.latitude\<close> and its longitude
  \<open>project.lon || project.longitude\<close>. A latitude or longitude that is 0 is treated as an
  absent one: \<open>addProjectMarker\<close> adds no marker and leaves the controller as it is, and
  \<open>calculateBounds\<close> leaves that component out of the list it takes minimum and maximum of,
  so the bounds are those of the same projects with the component removed.
\<close>

theorem zero_coordinate_is_absent:
  "(lat_of p \<in> {None, Some 0} \<or> lon_of p \<in> {None, Some 0} \<longrightarrow> addProjectMarker p m = m) \<and>
   (lat_of p \<in> {None, Some 0} \<longrightarrow>
      filter_Boolean (map lat_of (ps @ p # qs)) = filter_Boolean (map lat_of (ps @ qs)) \<and>
      calculateBounds (ps @ p # qs) =
        calculateBounds (ps @ p\<lparr>lat := None, latitude := None\<rparr> # qs)) \<and>
   (lon_of p \<in> {None, Some 0} \<longrightarrow>
      filter_Boolean (map lon_of (ps @ p # qs)) = filter_Boolean (map lon_of (ps @ qs)) \<and>
      calculateBounds (ps @ p # qs) =
        calculateBounds (ps @ p\<lparr>lon := None, longitude := None\<rparr> # qs)) \<and>
   (lat_of p \<in> {None, Some 0} \<and> lon_of p \<in> {None, Some 0} \<longrightarrow>
      calculateBounds (ps @ p # qs) = calculateBounds (ps @ qs))"
proof -
  have la: "lat_of (p\<lparr>lat := None, latitude := None\<rparr>) = None"
    and la': "lon_of (p\<lparr>lat := None, latitude := None\<rparr>) = lon_of p"
    and lo: "lon_of (p\<lparr>lon := None, longitude := None\<rparr>) = None"
    and lo': "lat_of (p\<lparr>lon := None, longitude := None\<rparr>) = lat_of p"
    by (simp_all add: lat_of_def lon_of_def js_or_def truthy_num_def)
  have 1: "lat_of p \<in> {None, Some 0} \<or> lon_of p \<in> {None, Some 0} \<longrightarrow> addProjectMarker p m = m"
    using addProjectMarker_falsy by blast
  have 2: "filter_Boolean (map lat_of (ps @ p # qs)) = filter_Boolean (map lat_of (ps @ qs))"
    if "lat_of p \<in> {None, Some 0}"
    using filter_Boolean_falsy[OF that, of "map lat_of ps" "map lat_of qs"] by simp
  have 3: "filter_Boolean (map lon_of (ps @ p # qs)) = filter_Boolean (map lon_of (ps @ qs))"
    if "lon_of p \<in> {None, Some 0}"
    using filter_Boolean_falsy[OF that, of "map lon_of ps" "map lon_of qs"] by simp
  have 4: "calculateBounds (ps @ p # qs) = calculateBounds (ps @ p\<lparr>lat := None, latitude := None\<rparr> # qs)"
    if "lat_of p \<in> {None, Some 0}"
  proof -
    have "filter_Boolean (map lat_of (ps @ p\<lparr>lat := None, latitude := None\<rparr> # qs))
        = filter_Boolean (map lat_of (ps @ qs))"
      using filter_Boolean_falsy[of None "map lat_of ps" "map lat_of qs"] la by simp
    moreover have "map lon_of (ps @ p\<lparr>lat := None, latitude := None\<rparr> # qs) = map lon_of (ps @ p # qs)"
      using la' by simp
    ultimately show ?thesis using 2[OF that] by (simp only: calculateBounds_lists)
  qed
  have 5: "calculateBounds (ps @ p # qs) = calculateBounds (ps @ p\<lparr>lon := None, longitude := None\<rparr> # qs)"
    if "lon_of p \<in> {None, Some 0}"
  proof -
    have "filter_Boolean (map lon_of (ps @ p\<lparr>lon := None, longitude := None\<rparr> # qs))
        = filter_Boolean (map lon_of (ps @ qs))"
      using filter_Boolean_falsy[of None "map lon_of ps" "map lon_of qs"] lo by simp
    moreover have "map lat_of (ps @ p\<lparr>lon := None, longitude := None\<rparr> # qs) = map lat_of (ps @ p # qs)"
      using lo' by simp
    ultimately show ?thesis using 3[OF that] by (simp only: calculateBounds_lists)
  qed
  have 6: "calculateBounds (ps @ p # qs) = calculateBounds (ps @ qs)"
    if "lat_of p \<in> {None, Some 0}" "lon_of p \<in> {None, Some 0}"
    using 2[OF that(1)] 3[OF that(2)] by (simp only: calculateBounds_lists)
  from 1 2 3 4 5 6 show ?thesis by blast
qed

theorem zero_coordinate_is_absent_witness:
  "lat_of ex_project_zero = Some 0 \<and> lon_of ex_project_zero = Some 121 \<and>
   addProjectMarker ex_project_zero ex_map = ex_map \<and>
   calculateBounds ([ex_project] @ ex_project_zero # []) =
     calculateBounds ([ex_project] @ ex_project_zero\<lparr>lat := None, latitude := None\<rparr> # []) \<and>
   calculateBounds [ex_project, ex_project_zero] = [(1199 / 10, 149 / 10), (1211 / 10, 151 / 10)] \<and>
   lat_of ex_project_nowhere = Some 0 \<and> lon_of ex_project_nowhere = None \<and>
   calculateBounds ([ex_project] @ ex_project_nowhere # []) = calculateBounds ([ex_project] @ []) \<and>
   calculateBounds ([ex_project] @ ex_project_nowhere # []) =
     calculateBounds ([ex_project] @ ex_project_nowhere\<lparr>lon := None, longitude := None\<rparr> # [])"
proof -
  have a: "lat_of ex_project_zero = Some 0" "lon_of ex_project_zero = Some 121"
    by (simp_all add: lat_of_def lon_of_def js_or_def truthy_num_def ex_project_zero_def)
  have b: "lat_of ex_project_nowhere = Some 0" "lon_of ex_project_nowhere = None"
    by (simp_all add: lat_of_def lon_of_def js_or_def truthy_num_def ex_project_nowhere_def)
  have c: "calculateBounds [ex_project, ex_project_zero] = [(1199 / 10, 149 / 10), (1211 / 10, 151 / 10)]"
    by (simp add: calculateBounds_def filter_Boolean_def lat_of_def lon_of_def js_or_def
        truthy_num_def ex_project_def ex_project_zero_def Math_min_def Math_max_def)
  have ha: "lat_of ex_project_zero \<in> {None, Some 0}" using a by simp
  have hb: "lat_of ex_project_nowhere \<in> {None, Some 0}" "lon_of ex_project_nowhere \<in> {None, Some 0}"
    using b by simp_all
  note z = zero_coordinate_is_absent[of ex_project_zero ex_map "[ex_project]" "[]"]
  note n = zero_coordinate_is_absent[of ex_project_nowhere ex_map "[ex_project]" "[]"]
  from z ha have 1: "addProjectMarker ex_project_zero ex_map = ex_map" by blast
  from z ha have 2: "calculateBounds ([ex_project] @ ex_project_zero # []) =
     calculateBounds ([ex_project] @ ex_project_zero\<lparr>lat := None, latitude := None\<rparr> # [])"
    by blast
  from n hb have 3: "calculateBounds ([ex_project] @ ex_project_nowhere # []) =
     calculateBounds ([ex_project] @ [])"
    by blast
  from n hb have 4: "calculateBounds ([ex_project] @ ex_project_nowhere # []) =
     calculateBounds ([ex_project] @ ex_project_nowhere\<lparr>lon := None, longitude := None\<rparr> # [])"
    by blast
  from a b c 1 2 3 4 show ?thesis by blast
qed

section \<open>Verification: the API key settings\<close>

lemma in_dropWhile: "x \<in> set s \<Longrightarrow> \<not> P x \<Longrightarrow> x \<in> set (dropWhile P s)"
  by (induction s) auto

lemma in_trim: "x \<in> set s \<Longrightarrow> \<not> is_js_space x \<Longrightarrow> x \<in> set (trim s)"
  by (simp add: trim_def in_dropWhile)

lemma set_trim: "set (trim s) \<subseteq> set s"
proof -
  have "set (trim s) \<subseteq> set (dropWhile is_js_space s)"
    unfolding trim_def using set_dropWhileD by fastforce
  also have "\<dots> \<subseteq> set s" using set_dropWhileD by fastforce
  finally show ?thesis .
qed

lemma BULLET_not_space: "\<not> is_js_space BULLET"
  by (simp add: is_js_space_def BULLET_def)

lemma dropWhile_fixed: "xs = [] \<or> \<not> P (hd xs) \<Longrightarrow> dropWhile P xs = xs"
  by (cases xs) auto

lemma trim_idem: "trim (trim s) = trim s"
proof -
  let ?P = is_js_space
  let ?a = "dropWhile ?P s"
  let ?b = "dropWhile ?P (rev ?a)"
  have t: "trim s = rev ?b" by (simp add: trim_def)
  have 1: "dropWhile ?P (rev ?b) = rev ?b"
  proof (cases "?b = []")
    case True
    show ?thesis unfolding True by simp
  next
    case False
    have "rev ?a = takeWhile ?P (rev ?a) @ ?b" by simp
    then have "?a = rev ?b @ rev (takeWhile ?P (rev ?a))"
      by (metis rev_append rev_rev_ident)
    with False have "hd ?a = hd (rev ?b)" by (metis hd_append2 rev_is_Nil_conv)
    moreover from False have "?a \<noteq> []"
      by (metis dropWhile.simps(1) rev.simps(1))
    then have "\<not> ?P (hd ?a)" by (rule hd_dropWhile)
    ultimately show ?thesis by (intro dropWhile_fixed) simp
  qed
  have "trim (rev ?b) = rev (dropWhile ?P (rev (dropWhile ?P (rev ?b))))"
    by (simp add: trim_def)
  also have "\<dots> = rev (dropWhile ?P ?b)" by (simp only: 1 rev_rev_ident)
  also have "\<dots> = rev ?b" by (simp only: dropWhile_idem)
  finally show ?thesis by (simp only: t)
qed

lemma maskKey_has_BULLET: "8 \<le> length k \<Longrightarrow> BULLET \<in> set (maskKey k)"
  by (auto simp: maskKey_def)

lemma storage_keys_distinct: "ANTHROPIC_KEY \<noteq> OPENAI_KEY"
  by (simp add: ANTHROPIC_KEY_def OPENAI_KEY_def lit_def)

lemma saveKeys_storage:
  "snd (saveKeys (u, st)) x =
     (if x = OPENAI_KEY \<and> trim (openaiInput u) \<noteq> [] \<and> BULLET \<notin> set (trim (openaiInput u))
      then Some (trim (openaiInput u))
      else if x = ANTHROPIC_KEY \<and> trim (anthropicInput u) \<noteq> [] \<and>
              BULLET \<notin> set (trim (anthropicInput u))
      then Some (trim (anthropicInput u))
      else st x)"
  using storage_keys_distinct by (auto simp: saveKeys_def Let_def)

lemma saveKeys_masked_anthropic:
  "BULLET \<in> set (anthropicInput u) \<Longrightarrow> snd (saveKeys (u, st)) ANTHROPIC_KEY = st ANTHROPIC_KEY"
  using storage_keys_distinct in_trim[OF _ BULLET_not_space, of "anthropicInput u"]
  by (simp add: saveKeys_storage)

lemma saveKeys_masked_openai:
  "BULLET \<in> set (openaiInput u) \<Longrightarrow> snd (saveKeys (u, st)) OPENAI_KEY = st OPENAI_KEY"
  using storage_keys_distinct in_trim[OF _ BULLET_not_space, of "openaiInput u"]
  by (simp add: saveKeys_storage)

lemma saveKeys_stored_form:
  assumes "\<forall>x v. st x = Some v \<longrightarrow> stored_form v"
  shows "\<forall>x v. snd (saveKeys (u, st)) x = Some v \<longrightarrow> stored_form v"
  using assms by (auto simp: saveKeys_storage stored_form_def trim_idem split: if_splits)

lemma openModal_anthropic:
  "st ANTHROPIC_KEY = Some k \<Longrightarrow> k \<noteq> [] \<Longrightarrow>
   anthropicInput (fst (openModal (u, st))) = maskKey k \<and> snd (openModal (u, st)) = st"
  by (auto simp: openModal_def Let_def split: option.splits)

lemma openModal_openai:
  "st OPENAI_KEY = Some k \<Longrightarrow> k \<noteq> [] \<Longrightarrow>
   openaiInput (fst (openModal (u, st))) = maskKey k \<and> snd (openModal (u, st)) = st"
  by (auto simp: openModal_def Let_def split: option.splits)

lemma resave_masked:
  assumes "stored_form k"
  shows "trim (maskKey k) = [] \<or> BULLET \<in> set (trim (maskKey k)) \<or> trim (maskKey k) = k"
proof (cases "8 \<le> length k")
  case True
  then have "BULLET \<in> set (maskKey k)" by (rule maskKey_has_BULLET)
  then show ?thesis using in_trim BULLET_not_space by blast
next
  case False
  then have "maskKey k = k" by (simp add: maskKey_def)
  with assms show ?thesis by (simp add: stored_form_def)
qed

lemma resave_anthropic:
  assumes "st ANTHROPIC_KEY = Some k" and "stored_form k"
  shows "snd (saveKeys (openModal (u, st))) ANTHROPIC_KEY = Some k"
proof -
  from assms have k: "k \<noteq> []" by (simp add: stored_form_def)
  obtain u' where o: "openModal (u, st) = (u', st)" and i: "anthropicInput u' = maskKey k"
    using openModal_anthropic[of st k u, OF assms(1) k] by (cases "openModal (u, st)") auto
  from resave_masked[OF assms(2)] i assms(1) storage_keys_distinct show ?thesis
    unfolding o by (auto simp: saveKeys_storage)
qed

lemma resave_openai:
  assumes "st OPENAI_KEY = Some k" and "stored_form k"
  shows "snd (saveKeys (openModal (u, st))) OPENAI_KEY = Some k"
proof -
  from assms have k: "k \<noteq> []" by (simp add: stored_form_def)
  obtain u' where o: "openModal (u, st) = (u', st)" and i: "openaiInput u' = maskKey k"
    using openModal_openai[of st k u, OF assms(1) k] by (cases "openModal (u, st)") auto
  from resave_masked[OF assms(2)] i assms(1) storage_keys_distinct show ?thesis
    unfolding o by (auto simp: saveKeys_storage)
qed

lemma clearKeys_stored_form:
  assumes "\<forall>x v. st x = Some v \<longrightarrow> stored_form v"
  shows "\<forall>x v. snd (clearKeys b (u, st)) x = Some v \<longrightarrow> stored_form v"
  using assms by (auto simp: clearKeys_def Let_def split: if_splits)

text \<open>
  C10. \<open>saveKeys\<close> never stores a masked value. An input that contains the mask character
  leaves its \<open>sessionStorage\<close> entry as it was; the mask of a key of at least 8 code units
  contains the mask character; \<open>saveKeys\<close>, \<open>clearKeys\<close> and \<open>openModal\<close> keep every stored
  key in the form \<open>saveKeys\<close> writes (not empty, trimmed, without the mask character); and
  opening the modal on a stored key and saving again leaves that key in place.
\<close>

theorem saveKeys_never_stores_mask:
  "(BULLET \<in> set (anthropicInput u) \<longrightarrow>
      snd (saveKeys (u, st)) ANTHROPIC_KEY = st ANTHROPIC_KEY) \<and>
   (BULLET \<in> set (openaiInput u) \<longrightarrow>
      snd (saveKeys (u, st)) OPENAI_KEY = st OPENAI_KEY) \<and>
   (8 \<le> length k \<longrightarrow> BULLET \<in> set (maskKey k)) \<and>
   ((\<forall>x v. st x = Some v \<longrightarrow> stored_form v) \<longrightarrow>
      (\<forall>x v. snd (saveKeys (u, st)) x = Some v \<longrightarrow> stored_form v) \<and>
      (\<forall>x v. snd (clearKeys b (u, st)) x = Some v \<longrightarrow> stored_form v) \<and>
      snd (openModal (u, st)) = st) \<and>
   (st ANTHROPIC_KEY = Some k \<and> stored_form k \<longrightarrow>
      snd (saveKeys (openModal (u, st))) ANTHROPIC_KEY = Some k) \<and>
   (st OPENAI_KEY = Some k \<and> stored_form k \<longrightarrow>
      snd (saveKeys (openModal (u, st))) OPENAI_KEY = Some k)"
proof -
  have "snd (openModal (u, st)) = st"
    by (simp add: openModal_def Let_def)
  then show ?thesis
    using saveKeys_masked_anthropic[of u st] saveKeys_masked_openai[of u st]
      maskKey_has_BULLET[of k] saveKeys_stored_form[of st u] clearKeys_stored_form[of st b u]
      resave_anthropic[of st k u] resave_openai[of st k u]
    by blast
qed

theorem saveKeys_never_stores_mask_witness:
  "maskKey ex_key = lit ''sk-ant-'' @ replicate 20 BULLET @ lit ''cdef'' \<and>
   BULLET \<in> set (anthropicInput ex_settings) \<and> BULLET \<in> set (openaiInput ex_settings) \<and>
   8 \<le> length ex_key \<and> stored_form ex_key \<and>
   ex_storage ANTHROPIC_KEY = Some ex_key \<and> ex_storage OPENAI_KEY = Some ex_key \<and>
   snd (saveKeys (ex_settings, ex_storage)) ANTHROPIC_KEY = Some ex_key \<and>
   snd (saveKeys (ex_settings, ex_storage)) OPENAI_KEY = Some ex_key \<and>
   snd (clearKeys False (ex_settings, ex_storage)) = ex_storage \<and>
   snd (openModal (ex_settings, ex_storage)) = ex_storage \<and>
   snd (saveKeys (openModal (ex_settings, ex_storage))) ANTHROPIC_KEY = Some ex_key \<and>
   snd (saveKeys (openModal (ex_settings, ex_storage))) OPENAI_KEY = Some ex_key"
proof -
  have m: "maskKey ex_key = lit ''sk-ant-'' @ replicate 20 BULLET @ lit ''cdef''"
    by (simp add: maskKey_def ex_key_def lit_def)
  have l: "8 \<le> length ex_key" by (simp add: ex_key_def lit_def)
  have b: "BULLET \<in> set (anthropicInput ex_settings)" "BULLET \<in> set (openaiInput ex_settings)"
    using maskKey_has_BULLET[OF l] by (simp_all add: ex_settings_def)
  have t: "trim ex_key = ex_key"
    by (simp add: trim_def ex_key_def lit_def is_js_space_def)
  have f: "stored_form ex_key"
    using t by (simp add: stored_form_def) (simp add: ex_key_def lit_def BULLET_def)
  have d: "ANTHROPIC_KEY \<noteq> OPENAI_KEY" by (rule storage_keys_distinct)
  have s: "ex_storage ANTHROPIC_KEY = Some ex_key" "ex_storage OPENAI_KEY = Some ex_key"
    using d by (simp_all add: ex_storage_def)
  have i: "\<forall>x v. ex_storage x = Some v \<longrightarrow> stored_form v"
    using f by (auto simp: ex_storage_def split: if_splits)
  note T = saveKeys_never_stores_mask[of ex_settings ex_storage ex_key False]
  from T b s have 1: "snd (saveKeys (ex_settings, ex_storage)) ANTHROPIC_KEY = Some ex_key"
    by simp
  from T b s have 2: "snd (saveKeys (ex_settings, ex_storage)) OPENAI_KEY = Some ex_key"
    by simp
  from T i have 3: "snd (openModal (ex_settings, ex_storage)) = ex_storage"
    by blast
  have 6: "snd (clearKeys False (ex_settings, ex_storage)) = ex_storage"
    by (simp add: clearKeys_def)
  from T s f have 4: "snd (saveKeys (openModal (ex_settings, ex_storage))) ANTHROPIC_KEY = Some ex_key"
    by blast
  from T s f have 5: "snd (saveKeys (openModal (ex_settings, ex_storage))) OPENAI_KEY = Some ex_key"
    by blast
  from m b l f s 1 2 3 4 5 6 show ?thesis by blast
qed

section \<open>Verification: message fragments\<close>

lemma assistant_bubbles_append:
  "assistant_bubbles (xs @ ys) = assistant_bubbles xs @ assistant_bubbles ys"
  by (simp add: assistant_bubbles_def)

lemma assistant_bubbles_remove_welcome:
  "assistant_bubbles (remove_welcome ns) = assistant_bubbles ns"
  by (induction ns) (auto simp: assistant_bubbles_def remove_welcome_def)

lemma assistant_bubbles_remove_first_typing:
  "assistant_bubbles (remove_first_typing ns) = assistant_bubbles ns"
  by (induction ns rule: remove_first_typing.induct) (auto simp: assistant_bubbles_def)

lemma handleMessage_Message_log:
  "messagesContainer (fst (handleMessage f (Message x d) (c, a))) =
     remove_welcome (remove_first_typing (messagesContainer c)) @ [Bubble Assistant (parseMarkdown x)]"
  by (simp add: Let_def addMessage_def removeTypingIndicator_def)

lemma handleMessage_Message_bubbles:
  "assistant_bubbles (messagesContainer (fst (handleMessage f (Message x d) s))) =
     assistant_bubbles (messagesContainer (fst s)) @ [parseMarkdown x]"
proof (cases s)
  case (Pair c a)
  show ?thesis unfolding Pair
    by (simp only: handleMessage_Message_log fst_conv assistant_bubbles_append
        assistant_bubbles_remove_welcome assistant_bubbles_remove_first_typing)
       (simp add: assistant_bubbles_def)
qed

lemma receive_fragments_bubbles:
  "assistant_bubbles (messagesContainer (fst (receive_fragments f frs s))) =
     assistant_bubbles (messagesContainer (fst s)) @ map (\<lambda>fr. parseMarkdown (fst fr)) frs"
proof (induction frs arbitrary: s)
  case Nil
  then show ?case by (simp add: receive_fragments_def)
next
  case (Cons fr frs)
  have "receive_fragments f (fr # frs) s =
      receive_fragments f frs (handleMessage f (Message (fst fr) (snd fr)) s)"
    by (simp add: receive_fragments_def)
  then show ?case
    by (simp only: Cons.IH handleMessage_Message_bubbles) simp
qed

text \<open>
  C1, as the code has it. Every \<open>message\<close> frame starts a bubble of its own: after a run of
  fragments the assistant bubbles of the log are those from before, followed by one bubble
  per fragment in receipt order, each holding the markdown rendering of that fragment alone.
  A single frame removes the typing indicator and the welcome message and appends its bubble
  at the end of the log.
\<close>

theorem each_fragment_is_a_bubble:
  "assistant_bubbles (messagesContainer (fst (receive_fragments f frs (c, a)))) =
     assistant_bubbles (messagesContainer c) @ map (\<lambda>fr. parseMarkdown (fst fr)) frs \<and>
   messagesContainer (fst (handleMessage f (Message x d) (c, a))) =
     remove_welcome (remove_first_typing (messagesContainer c)) @ [Bubble Assistant (parseMarkdown x)]"
  using receive_fragments_bubbles[of f frs "(c, a)"] handleMessage_Message_log[of f x d c a]
  by simp

theorem each_fragment_is_a_bubble_witness:
  "assistant_bubbles (messagesContainer (fst (receive_fragments None
      [(lit ''I found '', False), (lit ''12 projects'', False), (lit ''.'', True)] (ex_chat, ())))) =
     [lit ''I found '', lit ''12 projects'', lit ''.'']"
proof -
  have "assistant_bubbles (messagesContainer ex_chat) = []"
    by (simp add: assistant_bubbles_def ex_chat_def)
  moreover have "parseMarkdown (lit ''I found '') = lit ''I found ''"
    "parseMarkdown (lit ''12 projects'') = lit ''12 projects''"
    "parseMarkdown (lit ''.'') = lit ''.''"
    by code_simp+
  ultimately show ?thesis
    using each_fragment_is_a_bubble[of None
        "[(lit ''I found '', False), (lit ''12 projects'', False), (lit ''.'', True)]" ex_chat "()"]
    by simp
qed

text \<open>
  C1 as stated fails: the fragments \<open>**bo\<close> and \<open>ld**\<close> of one turn end in two bubbles, not
  in one bubble with the rendering of \<open>**bold**\<close>.
\<close>

theorem single_bubble_counterexample:
  "messagesContainer (fst (receive_fragments None [(lit ''**bo'', False), (lit ''ld**'', True)]
      (ex_chat, ()))) =
     [Bubble User (lit ''hi''), Bubble Assistant (lit ''**bo''), Bubble Assistant (lit ''ld**'')] \<and>
   messagesContainer (fst (receive_fragments None [(lit ''**bo'', False), (lit ''ld**'', True)]
      (ex_chat, ()))) \<noteq>
     [Bubble User (lit ''hi''), Bubble Assistant (parseMarkdown (lit ''**bo'' @ lit ''ld**''))] \<and>
   parseMarkdown (lit ''**bo'' @ lit ''ld**'') = lit ''<strong>bold</strong>''"
proof -
  have p: "parseMarkdown (lit ''**bo'') = lit ''**bo''" "parseMarkdown (lit ''ld**'') = lit ''ld**''"
    by code_simp+
  have q: "parseMarkdown (lit ''**bo'' @ lit ''ld**'') = lit ''<strong>bold</strong>''"
    by code_simp
  have "messagesContainer (fst (receive_fragments None [(lit ''**bo'', False), (lit ''ld**'', True)]
      (ex_chat, ()))) =
     [Bubble User (lit ''hi''), Bubble Assistant (lit ''**bo''), Bubble Assistant (lit ''ld**'')]"
    by (simp add: receive_fragments_def Let_def addMessage_def removeTypingIndicator_def
        remove_welcome_def ex_chat_def p)
  with q show ?thesis by simp
qed

section \<open>Verification: the map viewport\<close>










section \<open>Verification: the projects event\<close>

lemma addProjectMarker_markers:
  "markers (addProjectMarker p m) = markers m @ marker_of p"
  by (simp add: addProjectMarker_def marker_of_def split: option.splits)

lemma fold_addProjectMarker_markers:
  "markers (fold addProjectMarker ps m) = markers m @ concat (map marker_of ps)"
  by (induction ps arbitrary: m) (simp_all add: addProjectMarker_markers)

lemma updateProjects_markers:
  "markers (updateProjects ps m) = concat (map marker_of ps)"
  by (simp add: updateProjects_def Let_def updateStats_def clearMarkers_def
      fold_addProjectMarker_markers)

lemma fitBounds_markers: "markers (fitBounds b m) = markers m"
  by (simp add: fitBounds_def split: option.splits list.splits)

lemma Projects_currentProjects:
  "currentProjects (handleChatMessage rt (Projects d) a) = (case d of None \<Rightarrow> [] | Some ps \<Rightarrow> ps)"
  by (simp add: Let_def)

lemma Projects_markers:
  "markers (map_ctl (handleChatMessage rt (Projects d) a)) =
     concat (map marker_of (case d of None \<Rightarrow> [] | Some ps \<Rightarrow> ps))"
  by (simp add: Let_def updateProjects_markers fitBounds_markers)

lemma Projects_news:
  "newsItems (handleChatMessage rt (Projects d) a) = newsItems a \<and>
   newsRequests (handleChatMessage rt (Projects d) a) = newsRequests a"
  by (simp add: Let_def)

lemma Projects_card:
  "projectCard (handleChatMessage rt (Projects d) a) =
     (case d of Some (p # ps) \<Rightarrow> Card (createProjectCard rt p) | _ \<Rightarrow> projectCard a)"
  by (simp add: Let_def render_def first_project_def split: option.splits list.splits)

text \<open>
  C5, as the code has it. A \<open>projects\<close> frame replaces \<open>currentProjects\<close> by its data (by the
  empty set when it has none) and rebuilds the markers from the new set alone: one marker
  for each project with a usable latitude and longitude, in order, whatever the markers
  were. When the new set is not empty the card of its first project is rendered, otherwise
  the card stays. The news panel is not touched and no news request goes out; it is the
  marker click that requests news. Of two \<open>projects\<close> frames the later alone determines
  \<open>currentProjects\<close> and the markers.
\<close>

theorem projects_event_replaces_results:
  "currentProjects (handleChatMessage rt (Projects d) a) =
     (case d of None \<Rightarrow> [] | Some ps \<Rightarrow> ps) \<and>
   markers (map_ctl (handleChatMessage rt (Projects d) a)) =
     concat (map marker_of (case d of None \<Rightarrow> [] | Some ps \<Rightarrow> ps)) \<and>
   markers (map_ctl (handleChatMessage rt (Projects d) a)) =
     markers (updateProjects (case d of None \<Rightarrow> [] | Some ps \<Rightarrow> ps) m) \<and>
   (d = Some (p # ps) \<longrightarrow>
      projectCard (handleChatMessage rt (Projects d) a) = Card (createProjectCard rt p)) \<and>
   (d = None \<or> d = Some [] \<longrightarrow>
      projectCard (handleChatMessage rt (Projects d) a) = projectCard a) \<and>
   newsItems (handleChatMessage rt (Projects d) a) = newsItems a \<and>
   newsRequests (handleChatMessage rt (Projects d) a) = newsRequests a \<and>
   newsItems (handleProjectClick rt p a) = NewsLoading \<and>
   newsRequests (handleProjectClick rt p a) = newsRequests a @ [p] \<and>
   currentProjects (handleChatMessage rt (Projects d') (handleChatMessage rt (Projects d) a)) =
     currentProjects (handleChatMessage rt (Projects d') a) \<and>
   markers (map_ctl (handleChatMessage rt (Projects d') (handleChatMessage rt (Projects d) a))) =
     markers (map_ctl (handleChatMessage rt (Projects d') a))"
proof -
  have c: "d = Some (p # ps) \<longrightarrow>
      projectCard (handleChatMessage rt (Projects d) a) = Card (createProjectCard rt p)"
    by (simp add: Projects_card del: handleChatMessage.simps)
  have e: "d = None \<or> d = Some [] \<longrightarrow>
      projectCard (handleChatMessage rt (Projects d) a) = projectCard a"
    by (auto simp: Projects_card simp del: handleChatMessage.simps)
  have k: "newsItems (handleProjectClick rt p a) = NewsLoading \<and>
      newsRequests (handleProjectClick rt p a) = newsRequests a @ [p]"
    by (simp add: handleProjectClick_def)
  show ?thesis
    using c e k Projects_news[of rt d a]
    by (simp only: Projects_currentProjects Projects_markers updateProjects_markers)
qed

theorem projects_event_replaces_results_witness:
  "currentProjects (handleChatMessage (ex_rt 0) (Projects (Some [ex_project_zero, ex_project]))
      (handleChatMessage (ex_rt 0) (Projects (Some [ex_project_nowhere])) ex_app)) =
     [ex_project_zero, ex_project] \<and>
   markers (map_ctl (handleChatMessage (ex_rt 0) (Projects (Some [ex_project_zero, ex_project]))
      ex_app)) = [\<lparr>marker_lat = 15, marker_lon = 120, marker_project = ex_project\<rparr>] \<and>
   projectCard (handleChatMessage (ex_rt 0) (Projects (Some [ex_project_zero, ex_project]))
      ex_app) = Card (createProjectCard (ex_rt 0) ex_project_zero) \<and>
   projectCard (handleChatMessage (ex_rt 0) (Projects (Some [])) ex_app) = EmptyState"
proof -
  have m: "marker_of ex_project_zero = []"
    "marker_of ex_project = [\<lparr>marker_lat = 15, marker_lon = 120, marker_project = ex_project\<rparr>]"
    by (simp_all add: marker_of_def lat_of_def lon_of_def js_or_def truthy_num_def
        ex_project_zero_def ex_project_def)
  note T1 = projects_event_replaces_results[of "ex_rt 0" "Some [ex_project_nowhere]" ex_app
      ex_map ex_project_nowhere "[]" "Some [ex_project_zero, ex_project]"]
  note T2 = projects_event_replaces_results[of "ex_rt 0" "Some [ex_project_zero, ex_project]"
      ex_app ex_map ex_project_zero "[ex_project]" None]
  note T3 = projects_event_replaces_results[of "ex_rt 0" "Some []" ex_app ex_map ex_project "[]"
      None]
  from T1 T2 have 1: "currentProjects (handleChatMessage (ex_rt 0)
      (Projects (Some [ex_project_zero, ex_project]))
      (handleChatMessage (ex_rt 0) (Projects (Some [ex_project_nowhere])) ex_app)) =
     [ex_project_zero, ex_project]"
    by simp
  from T2 m have 2: "markers (map_ctl (handleChatMessage (ex_rt 0)
      (Projects (Some [ex_project_zero, ex_project])) ex_app)) =
      [\<lparr>marker_lat = 15, marker_lon = 120, marker_project = ex_project\<rparr>]"
    by simp
  from T2 have 3: "projectCard (handleChatMessage (ex_rt 0)
      (Projects (Some [ex_project_zero, ex_project])) ex_app) =
      Card (createProjectCard (ex_rt 0) ex_project_zero)"
    by blast
  from T3 have 4: "projectCard (handleChatMessage (ex_rt 0) (Projects (Some [])) ex_app) =
      EmptyState"
    by (simp add: ex_app_def)
  from 1 2 3 4 show ?thesis by blast
qed

text \<open>
  C5 as stated fails: a \<open>projects\<close> frame with one project renders the card of that project
  but leaves the news panel as it was and sends no news request, while the click on the
  marker of the same project does both.
\<close>

theorem projects_event_news_counterexample:
  "projectCard (handleChatMessage (ex_rt 0) (Projects (Some [ex_project])) ex_app) =
     Card (createProjectCard (ex_rt 0) ex_project) \<and>
   newsItems (handleChatMessage (ex_rt 0) (Projects (Some [ex_project])) ex_app) = NewsEmpty \<and>
   newsRequests (handleChatMessage (ex_rt 0) (Projects (Some [ex_project])) ex_app) = [] \<and>
   newsItems (handleProjectClick (ex_rt 0) ex_project ex_app) = NewsLoading \<and>
   newsRequests (handleProjectClick (ex_rt 0) ex_project ex_app) = [ex_project]"
  by (simp add: Let_def render_def first_project_def handleProjectClick_def ex_app_def)

section \<open>Verification: received frames\<close>

lemma connection_addMessage: "connection (addMessage r x c) = connection c"
  by (simp add: connection_def addMessage_def)








section \<open>Verification: sending without API keys\<close>

lemma sendMessage_blocked:
  "trim (inputElement_value c) = [] \<or> \<not> isConnected c \<Longrightarrow> sendMessage st acc c = c"
  by (auto simp: sendMessage_def Let_def)

lemma sendMessage_no_keys:
  assumes "\<not> truthy_str (st ANTHROPIC_KEY) \<or> \<not> truthy_str (st OPENAI_KEY)"
    and "trim (inputElement_value c) \<noteq> []" and "isConnected c"
  shows "sendMessage st acc c = addMessage Assistant KEYS_PROMPT c"
  using assms by (auto simp: sendMessage_def Let_def truthy_str_def split: option.splits)

text \<open>
  C6, as the code has it. When one of the two API keys is missing (absent or empty), a send
  transmits no frame and does not enter the pending state: nothing is given to the socket,
  the send button and the input are as before and no typing indicator is added. When the
  trimmed input is not empty and the connection is open, the prompt to configure the keys is
  appended to the chat log as an assistant message; when the input is blank or the
  connection is down, the send returns before it looks at the keys and nothing is shown.
\<close>

theorem missing_keys_send_nothing:
  "\<not> truthy_str (st ANTHROPIC_KEY) \<or> \<not> truthy_str (st OPENAI_KEY) \<Longrightarrow>
   sent (sendMessage st acc c) = sent c \<and>
   sendButton_disabled (sendMessage st acc c) = sendButton_disabled c \<and>
   inputElement_value (sendMessage st acc c) = inputElement_value c \<and>
   connection (sendMessage st acc c) = connection c \<and>
   (trim (inputElement_value c) \<noteq> [] \<and> isConnected c \<longrightarrow>
      messagesContainer (sendMessage st acc c) =
        remove_welcome (messagesContainer c) @ [Bubble Assistant (parseMarkdown KEYS_PROMPT)]) \<and>
   (trim (inputElement_value c) = [] \<or> \<not> isConnected c \<longrightarrow> sendMessage st acc c = c)"
proof (cases "trim (inputElement_value c) = [] \<or> \<not> isConnected c")
  case True
  then have "sendMessage st acc c = c" by (rule sendMessage_blocked)
  with True show ?thesis by auto
next
  case False
  assume k: "\<not> truthy_str (st ANTHROPIC_KEY) \<or> \<not> truthy_str (st OPENAI_KEY)"
  from False have "sendMessage st acc c = addMessage Assistant KEYS_PROMPT c"
    by (intro sendMessage_no_keys[OF k]) auto
  with False show ?thesis by (simp add: addMessage_def connection_def)
qed

theorem missing_keys_send_nothing_witness:
  "\<not> truthy_str (ex_storage_one_key OPENAI_KEY) \<and>
   trim (inputElement_value ex_chat_ready) = lit ''Show projects in Pangasinan'' \<and>
   isConnected ex_chat_ready \<and>
   sent (sendMessage ex_storage_one_key True ex_chat_ready) = [] \<and>
   sendButton_disabled (sendMessage ex_storage_one_key True ex_chat_ready) = False \<and>
   messagesContainer (sendMessage ex_storage_one_key True ex_chat_ready) =
     [Bubble Assistant KEYS_PROMPT] \<and>
   \<not> isConnected ex_chat_offline \<and>
   sendMessage ex_storage_one_key True ex_chat_offline = ex_chat_offline"
proof -
  have d: "ANTHROPIC_KEY \<noteq> OPENAI_KEY" by (rule storage_keys_distinct)
  then have k: "\<not> truthy_str (ex_storage_one_key OPENAI_KEY)"
    by (simp add: ex_storage_one_key_def truthy_str_def)
  have t: "trim (inputElement_value ex_chat_ready) = lit ''Show projects in Pangasinan''"
    by (simp add: ex_chat_ready_def trim_def lit_def is_js_space_def)
  have n: "lit ''Show projects in Pangasinan'' \<noteq> []" by (simp add: lit_def)
  have i: "isConnected ex_chat_ready" "\<not> isConnected ex_chat_offline"
    by (simp_all add: ex_chat_ready_def ex_chat_offline_def)
  have p: "parseMarkdown KEYS_PROMPT = KEYS_PROMPT" by code_simp
  have f: "sent ex_chat_ready = []" "sendButton_disabled ex_chat_ready = False"
    "remove_welcome (messagesContainer ex_chat_ready) = []"
    by (simp_all add: ex_chat_ready_def remove_welcome_def)
  note T1 = missing_keys_send_nothing[of ex_storage_one_key True ex_chat_ready, OF disjI2, OF k]
  note T2 = missing_keys_send_nothing[of ex_storage_one_key True ex_chat_offline, OF disjI2, OF k]
  from T1 t n i(1) f p have 1: "sent (sendMessage ex_storage_one_key True ex_chat_ready) = []"
    "sendButton_disabled (sendMessage ex_storage_one_key True ex_chat_ready) = False"
    "messagesContainer (sendMessage ex_storage_one_key True ex_chat_ready) =
       [Bubble Assistant KEYS_PROMPT]"
    by simp_all
  from T2 i(2) have 2: "sendMessage ex_storage_one_key True ex_chat_offline = ex_chat_offline"
    by blast
  from k t i 1 2 show ?thesis by blast
qed

text \<open>
  C6 as stated fails: with a key missing and a question typed in, a send while the
  connection is down shows no prompt; the manager is exactly as before.
\<close>

theorem missing_keys_prompt_counterexample:
  "\<not> truthy_str (ex_storage_one_key OPENAI_KEY) \<and>
   trim (inputElement_value ex_chat_offline) \<noteq> [] \<and>
   messagesContainer (sendMessage ex_storage_one_key True ex_chat_offline) = [Welcome]"
proof -
  have "ANTHROPIC_KEY \<noteq> OPENAI_KEY" by (rule storage_keys_distinct)
  then have k: "\<not> truthy_str (ex_storage_one_key OPENAI_KEY)"
    by (simp add: ex_storage_one_key_def truthy_str_def)
  have t: "trim (inputElement_value ex_chat_offline) = lit ''Show projects in Pangasinan''"
    by (simp add: ex_chat_offline_def ex_chat_ready_def trim_def lit_def is_js_space_def)
  have n: "lit ''Show projects in Pangasinan'' \<noteq> []" by (simp add: lit_def)
  have "sendMessage ex_storage_one_key True ex_chat_offline = ex_chat_offline"
    by (simp add: sendMessage_def Let_def ex_chat_offline_def)
  then have "messagesContainer (sendMessage ex_storage_one_key True ex_chat_offline) = [Welcome]"
    by (simp add: ex_chat_offline_def ex_chat_ready_def)
  with k t n show ?thesis by simp
qed

section \<open>Verification: the session id and reconnects\<close>







lemma sent_addMessage: "sent (addMessage r x c) = sent c"
  by (simp add: addMessage_def)










end
